theory Spec2Isabelle
  imports Main
begin

section \<open>JavaScript values\<close>

text \<open>
  The routers work on the dynamically typed values of an Express request. A query
  parameter is \<open>undefined\<close> when absent, a string as Express delivers it, or a
  boolean or number once the validation layer has converted it; \<open>JSON.parse\<close>
  replaces a cursor string by an arbitrary JSON value.

  Numbers are modelled as integers: \<open>parseInt\<close> yields an integer or \<open>NaN\<close>,
  and block numbers, page sizes and thresholds are integers. The model is exact for
  magnitudes below \<open>2 ^ 53\<close>, where a double holds every integer.
\<close>

datatype jsval =
    JUndefined
  | JNull
  | JBool bool
  | JNum int
  | JNaN
  | JStr string
  | JArr "jsval list"
  | JObj "(string \<times> jsval) list"

text \<open>ToBoolean: the values that an \<open>if\<close>, \<open>&&\<close> or \<open>||\<close> treats as false.\<close>

fun truthy :: "jsval \<Rightarrow> bool" where
  "truthy JUndefined = False"
| "truthy JNull = False"
| "truthy (JBool b) = b"
| "truthy (JNum n) = (n \<noteq> 0)"
| "truthy JNaN = False"
| "truthy (JStr s) = (s \<noteq> [])"
| "truthy (JArr xs) = True"
| "truthy (JObj kvs) = True"

text \<open>\<open>a && b\<close> and \<open>a || b\<close> return one of their operands.\<close>

definition js_and :: "jsval \<Rightarrow> jsval \<Rightarrow> jsval" where
  "js_and a b = (if truthy a then b else a)"

definition js_or :: "jsval \<Rightarrow> jsval \<Rightarrow> jsval" where
  "js_or a b = (if truthy a then a else b)"

subsection \<open>Decimal numerals\<close>

definition digit_char :: "nat \<Rightarrow> char" where
  "digit_char d = ''0123456789'' ! d"

definition is_digit :: "char \<Rightarrow> bool" where
  "is_digit c = (c \<in> set ''0123456789'')"

definition digit_val :: "char \<Rightarrow> nat" where
  "digit_val c = of_char c - of_char (CHR ''0'')"

function show_nat :: "nat \<Rightarrow> string" where
  "show_nat n = (if n < 10 then [digit_char n] else show_nat (n div 10) @ [digit_char (n mod 10)])"
  by pat_completeness auto
termination
  by (relation "measure id") auto

declare show_nat.simps [simp del]

definition show_int :: "int \<Rightarrow> string" where
  "show_int i = (if i < 0 then CHR ''-'' # show_nat (nat (- i)) else show_nat (nat i))"

text \<open>The value of a digit string, most significant digit first.\<close>

definition digits_val :: "string \<Rightarrow> nat" where
  "digits_val ds = foldl (\<lambda>acc c. 10 * acc + digit_val c) 0 ds"

subsection \<open>ToString, \<open>+\<close> and \<open>parseInt\<close>\<close>

text \<open>
  \<open>Array.prototype.toString\<close> joins the elements with commas; \<open>null\<close> and
  \<open>undefined\<close> elements give the empty string.
\<close>

fun join_comma :: "string list \<Rightarrow> string" where
  "join_comma [] = []"
| "join_comma [s] = s"
| "join_comma (s # t # ss) = s @ '','' @ join_comma (t # ss)"

fun ToString :: "jsval \<Rightarrow> string" where
  "ToString JUndefined = ''undefined''"
| "ToString JNull = ''null''"
| "ToString (JBool b) = (if b then ''true'' else ''false'')"
| "ToString (JNum n) = show_int n"
| "ToString JNaN = ''NaN''"
| "ToString (JStr s) = s"
| "ToString (JArr xs) =
     join_comma (map (\<lambda>x. if x = JUndefined \<or> x = JNull then [] else ToString x) xs)"
| "ToString (JObj kvs) = ''[object Object]''"

text \<open>ToNumber on the primitives that are not strings.\<close>

fun ToNumber :: "jsval \<Rightarrow> jsval" where
  "ToNumber JNull = JNum 0"
| "ToNumber (JBool b) = JNum (if b then 1 else 0)"
| "ToNumber (JNum n) = JNum n"
| "ToNumber v = JNaN"

fun is_stringy :: "jsval \<Rightarrow> bool" where
  "is_stringy (JStr s) = True"
| "is_stringy (JArr xs) = True"
| "is_stringy (JObj kvs) = True"
| "is_stringy v = False"

text \<open>
  The binary \<open>+\<close>: string concatenation as soon as one operand is a string (or an
  object, whose primitive is a string), numeric addition otherwise.
\<close>

definition js_plus :: "jsval \<Rightarrow> jsval \<Rightarrow> jsval" where
  "js_plus a b =
     (if is_stringy a \<or> is_stringy b then JStr (ToString a @ ToString b)
      else (case (ToNumber a, ToNumber b) of
              (JNum x, JNum y) \<Rightarrow> JNum (x + y)
            | _ \<Rightarrow> JNaN))"

text \<open>
  The white space that \<open>parseInt\<close> skips, as far as it fits a \<open>char\<close>: TAB, LF,
  VT, FF, CR, SP and NBSP.
\<close>

definition is_js_space :: "char \<Rightarrow> bool" where
  "is_js_space c = (of_char c \<in> {9, 10, 11, 12, 13, 32, 160 :: nat})"

text \<open>
  \<open>parseInt(s, 10)\<close>: skip white space, read an optional sign, then the longest
  prefix of decimal digits; \<open>NaN\<close> when there is no digit.
\<close>

definition parseInt_str :: "string \<Rightarrow> jsval" where
  "parseInt_str s =
     (let t = dropWhile is_js_space s;
          neg = (t \<noteq> [] \<and> hd t = CHR ''-'');
          u = (if t \<noteq> [] \<and> (hd t = CHR ''+'' \<or> hd t = CHR ''-'') then tl t else t);
          ds = takeWhile is_digit u
      in if ds = [] then JNaN
         else JNum (if neg then - int (digits_val ds) else int (digits_val ds)))"

definition parseInt :: "jsval \<Rightarrow> jsval" where
  "parseInt v = parseInt_str (ToString v)"


section \<open>Requests, responses and collaborators\<close>

text \<open>
  \<open>new Error(message)\<close> is \<open>Error\<close>; the parser's exception and the typed
  exception of the date check are kept apart from it.
\<close>

datatype error =
    Error string
  | SyntaxError
  | InvalidDateParam

text \<open>\<open>req.query\<close> and \<open>req.params\<close>: an absent key reads as \<open>undefined\<close>.\<close>

record request =
  query :: "string \<Rightarrow> jsval"
  params :: "string \<Rightarrow> jsval"

definition set_query :: "request \<Rightarrow> string \<Rightarrow> jsval \<Rightarrow> request" where
  "set_query req k v = req\<lparr>query := (query req)(k := v)\<rparr>"

datatype response =
    Json jsval
  | Status nat

definition SERVICE_UNAVAILABLE :: nat where
  "SERVICE_UNAVAILABLE = 503"

datatype H160 = H160 string

datatype H256 = H256 string

record block =
  hash :: string
  number :: int
  timestamp :: int

datatype aggs_order = OrderAssetType | OrderAddress

text \<open>The argument objects of the query engine.\<close>

record filter_params =
  address :: jsval
  assetType :: "H160 option"
  shardId :: jsval
  onlyConfirmed :: jsval
  confirmThreshold :: jsval

record utxo_params = filter_params +
  itemsPerPage :: jsval
  firstEvaluatedKey :: jsval
  lastEvaluatedKey :: jsval

record aggs_params = utxo_params +
  order :: aggs_order

datatype key_function = CreateUTXOEvaluatedKey | CreateAggsUTXOEvaluatedKey aggs_order

datatype schema =
    utxoSchema
  | paginationSchema
  | utxoPaginationSchema
  | aggsUTXOPaginationSchema
  | snapshotSchema
  | snapshotPaginationSchema

text \<open>
  Every call that leaves the router is recorded, with its arguments, next to the
  responses sent and the errors handed to Express.
\<close>

datatype call =
    WorkerSync
  | GetUTXO utxo_params
  | GetAggsUTXO aggs_params
  | GetCountOfAggsUTXO filter_params
  | GetByTime int
  | GetSnapshot H160 int jsval
  | GetByHash H256
  | GetByNumber jsval

datatype event =
    Called call
  | Sent response
  | Raised error

text \<open>
  The modules and libraries the routers call but which are not part of the routers:
  the JavaScript built-ins \<open>JSON.parse\<close> and \<open>isNaN\<close>, the constructors of
  \<open>H160\<close>, \<open>H256\<close> and \<open>moment\<close> (\<open>None\<close> for a moment that is not valid,
  the Unix time otherwise), the validator, the sync worker (\<open>Some m\<close> when
  \<open>worker.sync()\<close> rejects with an error of message \<open>m\<close>), the models and the
  pagination result builder. The block table is the content of the \<open>Block\<close> model.
\<close>

record env =
  JSON_parse :: "jsval \<Rightarrow> error + jsval"
  isNaN :: "jsval \<Rightarrow> bool"
  H160_new :: "jsval \<Rightarrow> error + H160"
  H256_new :: "jsval \<Rightarrow> error + H256"
  moment :: "jsval \<Rightarrow> int option"
  validate :: "schema list \<Rightarrow> request \<Rightarrow> error + request"
  worker_sync :: "string option"
  getUTXO :: "utxo_params \<Rightarrow> error + jsval list"
  getAggsUTXO :: "aggs_params \<Rightarrow> error + jsval list"
  getCountOfAggsUTXO :: "filter_params \<Rightarrow> error + jsval"
  getSnapshot :: "H160 \<Rightarrow> int \<Rightarrow> jsval \<Rightarrow> error + (string \<times> jsval) list"
  getByHash :: "H256 \<Rightarrow> error + jsval option"
  getByNumber :: "jsval \<Rightarrow> error + jsval option"
  createPaginationResult ::
    "jsval \<Rightarrow> jsval \<Rightarrow> jsval list \<Rightarrow> key_function \<Rightarrow> jsval \<Rightarrow> jsval"
  blocks :: "block list"

text \<open>
  Modelled from the spec: \<open>BlockModel.getByTime\<close> (models/logic/block is not among
  the sources). "Resolve asOfTime to the latest Block with timestamp <= asOfTime";
  none when no such block exists.
\<close>

fun latest :: "block list \<Rightarrow> block option" where
  "latest [] = None"
| "latest (b # bs) =
     (case latest bs of
        None \<Rightarrow> Some b
      | Some c \<Rightarrow> if number c < number b then Some b else Some c)"

definition getByTime :: "block list \<Rightarrow> int \<Rightarrow> block option" where
  "getByTime bs t = latest (filter (\<lambda>b. timestamp b \<le> t) bs)"

section \<open>Express middleware\<close>

text \<open>
  A middleware or handler produces events and then calls \<open>next()\<close> (with the
  request as it has left it), \<open>next(e)\<close>, both, or neither. \<open>next(e)\<close> hands the
  error to the error handlers of the application and skips the rest of the route.
\<close>

datatype next_call = Next request | NextErr error

type_synonym middleware = "request \<Rightarrow> event list \<times> next_call list"

fun run :: "middleware list \<Rightarrow> request \<Rightarrow> event list" where
  "run [] req = []"
| "run (m # ms) req =
     (case m req of
        (evs, ks) \<Rightarrow>
          evs @ concat (map (\<lambda>k. case k of Next r \<Rightarrow> run ms r | NextErr e \<Rightarrow> [Raised e]) ks))"

text \<open>\<open>s.search(/p/) >= 0\<close> for a pattern without metacharacters: \<open>p\<close> occurs in \<open>s\<close>.\<close>

fun starts_with :: "string \<Rightarrow> string \<Rightarrow> bool" where
  "starts_with [] s = True"
| "starts_with (p # ps) [] = False"
| "starts_with (p # ps) (c # cs) = (p = c \<and> starts_with ps cs)"

fun occurs_in :: "string \<Rightarrow> string \<Rightarrow> bool" where
  "occurs_in p [] = (p = [])"
| "occurs_in p (c # cs) = (starts_with p (c # cs) \<or> occurs_in p cs)"

subsection \<open>models/logic/utils/middleware.ts\<close>

definition syncIfNeeded :: "env \<Rightarrow> middleware" where
  "syncIfNeeded env req =
     (if query req ''sync'' = JBool True then
        (case worker_sync env of
           None \<Rightarrow> ([Called WorkerSync], [Next req])
         | Some message \<Rightarrow>
             if occurs_in ''ECONNRESET'' message \<or> occurs_in ''ECONNREFUSED'' message
             then ([Called WorkerSync, Sent (Status SERVICE_UNAVAILABLE)], [])
             else ([Called WorkerSync], [NextErr (Error message), Next req]))
      else ([], [Next req]))"

text \<open>The first two statements of \<open>parseEvaluatedKey\<close>: parse a key that is truthy.\<close>

definition parseKey :: "env \<Rightarrow> string \<Rightarrow> request \<Rightarrow> error + request" where
  "parseKey env k req =
     (if truthy (query req k) then
        (case JSON_parse env (query req k) of
           Inl e \<Rightarrow> Inl e
         | Inr v \<Rightarrow> Inr (set_query req k v))
      else Inr req)"

definition parseEvaluatedKey :: "env \<Rightarrow> middleware" where
  "parseEvaluatedKey env req =
     (case parseKey env ''firstEvaluatedKey'' req of
        Inl e \<Rightarrow> ([], [NextErr e])
      | Inr req1 \<Rightarrow>
          (case parseKey env ''lastEvaluatedKey'' req1 of
             Inl e \<Rightarrow> ([], [NextErr e])
           | Inr req2 \<Rightarrow>
               if truthy (query req2 ''lastEvaluatedKey'') \<and> truthy (query req2 ''firstEvaluatedKey'')
               then ([], [NextErr (Error ''Conflict lastEvaluatedKey and firstEvaluatedKey'')])
               else ([], [Next req2])))"

text \<open>\<open>validate({query: {...}})\<close> of routers/validator, applied as a middleware.\<close>

definition validate_mw :: "env \<Rightarrow> schema list \<Rightarrow> middleware" where
  "validate_mw env schemas req =
     (case validate env schemas req of
        Inl e \<Rightarrow> ([], [NextErr e])
      | Inr req' \<Rightarrow> ([], [Next req']))"


section \<open>routers/asset.ts\<close>

text \<open>\<open>if (assetTypeString) { assetType = new H160(assetTypeString); }\<close>\<close>

definition optional_H160 :: "env \<Rightarrow> jsval \<Rightarrow> error + H160 option" where
  "optional_H160 env assetTypeString =
     (if truthy assetTypeString then
        (case H160_new env assetTypeString of
           Inl e \<Rightarrow> Inl e
         | Inr h \<Rightarrow> Inr (Some h))
      else Inr None)"

text \<open>\<open>(req.query.itemsPerPage && parseInt(req.query.itemsPerPage, 10)) || 15\<close>\<close>

definition itemsPerPage_of :: "request \<Rightarrow> jsval" where
  "itemsPerPage_of req =
     js_or (js_and (query req ''itemsPerPage'') (parseInt (query req ''itemsPerPage''))) (JNum 15)"

text \<open>\<open>req.query.k && parseInt(req.query.k, 10)\<close>\<close>

definition optional_int :: "request \<Rightarrow> string \<Rightarrow> jsval" where
  "optional_int req k = js_and (query req k) (parseInt (query req k))"

definition utxo_handler :: "env \<Rightarrow> middleware" where
  "utxo_handler env req =
     (case optional_H160 env (query req ''assetType'') of
        Inl e \<Rightarrow> ([], [NextErr e])
      | Inr h \<Rightarrow>
          (let ps = \<lparr>address = query req ''address'',
                     assetType = h,
                     shardId = optional_int req ''shardId'',
                     onlyConfirmed = query req ''onlyConfirmed'',
                     confirmThreshold = optional_int req ''confirmThreshold'',
                     itemsPerPage = js_plus (itemsPerPage_of req) (JNum 1),
                     firstEvaluatedKey = query req ''firstEvaluatedKey'',
                     lastEvaluatedKey = query req ''lastEvaluatedKey''\<rparr>
           in case getUTXO env ps of
                Inl e \<Rightarrow> ([Called (GetUTXO ps)], [NextErr e])
              | Inr utxo \<Rightarrow>
                  ([Called (GetUTXO ps),
                    Sent (Json (createPaginationResult env
                      (query req ''firstEvaluatedKey'') (query req ''lastEvaluatedKey'')
                      utxo CreateUTXOEvaluatedKey (itemsPerPage_of req)))], [])))"

definition order_of :: "jsval \<Rightarrow> aggs_order" where
  "order_of a = (if truthy a then OrderAssetType else OrderAddress)"

definition aggs_utxo_handler :: "env \<Rightarrow> middleware" where
  "aggs_utxo_handler env req =
     (case optional_H160 env (query req ''assetType'') of
        Inl e \<Rightarrow> ([], [NextErr e])
      | Inr h \<Rightarrow>
          (let ps = \<lparr>address = query req ''address'',
                     assetType = h,
                     shardId = optional_int req ''shardId'',
                     onlyConfirmed = query req ''onlyConfirmed'',
                     confirmThreshold = optional_int req ''confirmThreshold'',
                     itemsPerPage = js_plus (itemsPerPage_of req) (JNum 1),
                     firstEvaluatedKey = query req ''firstEvaluatedKey'',
                     lastEvaluatedKey = query req ''lastEvaluatedKey'',
                     order = order_of (query req ''address'')\<rparr>
           in case getAggsUTXO env ps of
                Inl e \<Rightarrow> ([Called (GetAggsUTXO ps)], [NextErr e])
              | Inr aggs \<Rightarrow>
                  ([Called (GetAggsUTXO ps),
                    Sent (Json (createPaginationResult env
                      (query req ''firstEvaluatedKey'') (query req ''lastEvaluatedKey'')
                      aggs (CreateAggsUTXOEvaluatedKey (order_of (query req ''address'')))
                      (itemsPerPage_of req)))], [])))"

definition aggs_utxo_count_handler :: "env \<Rightarrow> middleware" where
  "aggs_utxo_count_handler env req =
     (case optional_H160 env (query req ''assetType'') of
        Inl e \<Rightarrow> ([], [NextErr e])
      | Inr h \<Rightarrow>
          (let ps = \<lparr>address = query req ''address'',
                     assetType = h,
                     shardId = optional_int req ''shardId'',
                     onlyConfirmed = query req ''onlyConfirmed'',
                     confirmThreshold = optional_int req ''confirmThreshold''\<rparr>
           in case getCountOfAggsUTXO env ps of
                Inl e \<Rightarrow> ([Called (GetCountOfAggsUTXO ps)], [NextErr e])
              | Inr count \<Rightarrow> ([Called (GetCountOfAggsUTXO ps), Sent (Json count)], [])))"

definition snapshot_handler :: "env \<Rightarrow> middleware" where
  "snapshot_handler env req =
     (case H160_new env (query req ''assetType'') of
        Inl e \<Rightarrow> ([], [NextErr e])
      | Inr h \<Rightarrow>
          (case moment env (query req ''date'') of
             None \<Rightarrow> ([], [NextErr InvalidDateParam])
           | Some t \<Rightarrow>
               (case getByTime (blocks env) t of
                  None \<Rightarrow> ([Called (GetByTime t), Sent (Json JNull)], [])
                | Some b \<Rightarrow>
                    (case getSnapshot env h (number b) (query req ''lastEvaluatedKey'') of
                       Inl e \<Rightarrow>
                         ([Called (GetByTime t),
                           Called (GetSnapshot h (number b) (query req ''lastEvaluatedKey''))],
                          [NextErr e])
                     | Inr snapshot \<Rightarrow>
                         ([Called (GetByTime t),
                           Called (GetSnapshot h (number b) (query req ''lastEvaluatedKey'')),
                           Sent (Json (JObj ((''blockHash'', JStr (hash b)) #
                                             (''blockNumber'', JNum (number b)) # snapshot)))],
                          [])))))"

text \<open>The routes: the middleware of each \<open>router.get\<close>, in order.\<close>

definition GET_utxo :: "env \<Rightarrow> request \<Rightarrow> event list" where
  "GET_utxo env =
     run [parseEvaluatedKey env,
          validate_mw env [utxoSchema, paginationSchema, utxoPaginationSchema],
          syncIfNeeded env,
          utxo_handler env]"

definition GET_aggs_utxo :: "env \<Rightarrow> request \<Rightarrow> event list" where
  "GET_aggs_utxo env =
     run [parseEvaluatedKey env,
          validate_mw env [utxoSchema, paginationSchema, aggsUTXOPaginationSchema],
          syncIfNeeded env,
          aggs_utxo_handler env]"

definition GET_aggs_utxo_count :: "env \<Rightarrow> request \<Rightarrow> event list" where
  "GET_aggs_utxo_count env =
     run [validate_mw env [utxoSchema],
          syncIfNeeded env,
          aggs_utxo_count_handler env]"

definition GET_snapshot :: "env \<Rightarrow> request \<Rightarrow> event list" where
  "GET_snapshot env =
     run [parseEvaluatedKey env,
          validate_mw env [snapshotSchema, snapshotPaginationSchema],
          snapshot_handler env]"

section \<open>routers/block.ts\<close>

text \<open>
  \<open>/block/:hashOrNumber\<close>. The first \<open>try\<close> leaves \<open>hashValue\<close> or
  \<open>numberValue\<close> (or neither) defined; \<open>numberValue != undefined\<close> holds for every
  number, \<open>NaN\<close> included.
\<close>

definition block_response :: "call \<Rightarrow> error + jsval option \<Rightarrow> event list \<times> next_call list" where
  "block_response c r =
     (case r of
        Inl e \<Rightarrow> ([Called c], [NextErr e])
      | Inr latestBlockInst \<Rightarrow>
          ([Called c, Sent (Json (case latestBlockInst of None \<Rightarrow> JNull | Some b \<Rightarrow> b))], []))"

definition block_handler :: "env \<Rightarrow> middleware" where
  "block_handler env req =
     (let hashOrNumber = params req ''hashOrNumber'';
          hashValue = (case H256_new env hashOrNumber of Inr h \<Rightarrow> Some h | Inl e \<Rightarrow> None);
          numberValue =
            (case H256_new env hashOrNumber of
               Inr h \<Rightarrow> JUndefined
             | Inl e \<Rightarrow> if \<not> isNaN env hashOrNumber then parseInt hashOrNumber else JUndefined)
      in case hashValue of
           Some h \<Rightarrow> block_response (GetByHash h) (getByHash env h)
         | None \<Rightarrow>
             if numberValue \<noteq> JUndefined \<and> numberValue \<noteq> JNull
             then block_response (GetByNumber numberValue) (getByNumber env numberValue)
             else ([Sent (Json JNull)], []))"

definition GET_block :: "env \<Rightarrow> request \<Rightarrow> event list" where
  "GET_block env = run [block_handler env]"


section \<open>JSON texts\<close>

text \<open>
  \<open>JSON.parse\<close> on the texts that a cursor is made of: a number without fraction
  or exponent, a string without escape sequences, \<open>null\<close>, \<open>true\<close>, \<open>false\<close>,
  or an array of these, with white space between the tokens. Any other text is
  rejected; among the texts rejected here, those with fractions, exponents, escape
  sequences, nested arrays or objects may be valid JSON, so this parser stands for
  \<open>JSON.parse\<close> only on texts it accepts and on texts that are not JSON at all.
  The routes take their parser from the environment.
\<close>

definition is_json_ws :: "char \<Rightarrow> bool" where
  "is_json_ws c = (c \<in> set [CHR 0x20, CHR 0x09, CHR 0x0A, CHR 0x0D])"

definition plain_char :: "char \<Rightarrow> bool" where
  "plain_char c = (c \<noteq> CHR 0x22 \<and> c \<noteq> CHR 0x5C \<and> (32::nat) \<le> of_char c)"

definition parse_number :: "string \<Rightarrow> (jsval \<times> string) option" where
  "parse_number s =
     (let neg = (s \<noteq> [] \<and> hd s = CHR ''-'');
          u = (if neg then tl s else s);
          ds = takeWhile is_digit u;
          r = dropWhile is_digit u
      in if ds = [] then None
         else if hd ds = CHR ''0'' \<and> length ds \<noteq> 1 then None
         else if r \<noteq> [] \<and> hd r \<in> set ''.eE'' then None
         else Some (JNum (if neg then - int (digits_val ds) else int (digits_val ds)), r))"

definition parse_string :: "string \<Rightarrow> (jsval \<times> string) option" where
  "parse_string s =
     (let body = takeWhile plain_char s;
          r = dropWhile plain_char s
      in if r \<noteq> [] \<and> hd r = CHR 0x22 then Some (JStr body, tl r) else None)"

definition parse_prim :: "string \<Rightarrow> (jsval \<times> string) option" where
  "parse_prim s =
     (if s = [] then None
      else if hd s = CHR 0x22 then parse_string (tl s)
      else if hd s = CHR ''-'' \<or> is_digit (hd s) then parse_number s
      else if starts_with ''null'' s then Some (JNull, drop 4 s)
      else if starts_with ''true'' s then Some (JBool True, drop 4 s)
      else if starts_with ''false'' s then Some (JBool False, drop 5 s)
      else None)"

function parse_elems :: "string \<Rightarrow> (jsval list \<times> string) option" where
  "parse_elems s =
     (case parse_prim (dropWhile is_json_ws s) of
        None \<Rightarrow> None
      | Some (v, r) \<Rightarrow>
          (let r' = dropWhile is_json_ws r
           in if r' = [] then None
              else if hd r' = CHR '']'' then Some ([v], tl r')
              else if hd r' = CHR '','' \<and> length (tl r') < length s then
                (case parse_elems (tl r') of
                   None \<Rightarrow> None
                 | Some (vs, r'') \<Rightarrow> Some (v # vs, r''))
              else None))"
  by pat_completeness auto
termination
  by (relation "measure length") auto

declare parse_elems.simps [simp del]

definition parse_text :: "string \<Rightarrow> jsval option" where
  "parse_text s =
     (let t = dropWhile is_json_ws s
      in if t \<noteq> [] \<and> hd t = CHR ''[''
         then (let u = dropWhile is_json_ws (tl t)
               in if u \<noteq> [] \<and> hd u = CHR '']''
                  then (if dropWhile is_json_ws (tl u) = [] then Some (JArr []) else None)
                  else (case parse_elems u of
                          None \<Rightarrow> None
                        | Some (vs, r) \<Rightarrow>
                            if dropWhile is_json_ws r = [] then Some (JArr vs) else None))
         else (case parse_prim t of
                 None \<Rightarrow> None
               | Some (v, r) \<Rightarrow> if dropWhile is_json_ws r = [] then Some v else None))"

definition JSON_parse_cursor :: "jsval \<Rightarrow> error + jsval" where
  "JSON_parse_cursor v = (case parse_text (ToString v) of None \<Rightarrow> Inl SyntaxError | Some x \<Rightarrow> Inr x)"









section \<open>Cursor encoding and confirmation filter\<close>

text \<open>
  Modelled from the spec: \<open>createUTXOEvaluatedKey\<close> and
  \<open>createAggsUTXOEvaluatedKey\<close> of models/logic/utxo, which is not among the
  sources. "encode(row) deterministically derives the Cursor from a result row's
  SortKey fields, serialized as an ordered sequence of primitive values
  (numbers/strings)"; the SortKey is "(createdBlockNumber, actionId, outputIndex)" for
  the UTXO listing, "(address, assetType)" for address-grouped and
  "(assetType, address)" for assetType-grouped aggregates. The serialisation is JSON,
  the format \<open>parseEvaluatedKey\<close> reads.
\<close>

record utxo_row =
  createdBlockNumber :: int
  actionId :: int
  outputIndex :: int






text \<open>
  Modelled from the spec: the confirmation filter inside \<open>UTXOModel.getUTXO\<close>
  (models/logic/utxo is not among the sources; the router only forwards
  \<open>onlyConfirmed\<close> and \<open>confirmThreshold\<close>). "Eligible ceiling =
  H - confirmThreshold when onlyConfirmed is true, else no ceiling"; an output is
  eligible when its block number of creation does not exceed the ceiling.
\<close>

definition confirmationCeiling :: "bool \<Rightarrow> int \<Rightarrow> int \<Rightarrow> int option" where
  "confirmationCeiling only_confirmed confirm_threshold H =
     (if only_confirmed then Some (H - confirm_threshold) else None)"

definition eligible :: "int option \<Rightarrow> utxo_row \<Rightarrow> bool" where
  "eligible ceiling r = (case ceiling of None \<Rightarrow> True | Some c \<Rightarrow> createdBlockNumber r \<le> c)"

definition confirmedUTXO :: "bool \<Rightarrow> int \<Rightarrow> int \<Rightarrow> utxo_row list \<Rightarrow> utxo_row list" where
  "confirmedUTXO only_confirmed confirm_threshold H rows =
     filter (eligible (confirmationCeiling only_confirmed confirm_threshold H)) rows"

section \<open>A sample environment\<close>

text \<open>
  Collaborators that accept every request and hold an empty store, used to run the
  routes on concrete requests: the validator lets the request through unchanged, the
  hash constructors accept hexadecimal strings of the right length, a string of
  decimal digits is the only numeric string, one date is known to \<open>moment\<close>, and the
  block table holds one block.
\<close>

definition is_hex :: "char \<Rightarrow> bool" where
  "is_hex c = (c \<in> set ''0123456789abcdefABCDEF'')"

definition sample_H160 :: "jsval \<Rightarrow> error + H160" where
  "sample_H160 v =
     (case v of
        JStr s \<Rightarrow> if length s = 40 \<and> list_all is_hex s then Inr (H160 s)
                  else Inl (Error ''Expected 20 byte hexstring for creating H160'')
      | _ \<Rightarrow> Inl (Error ''Expected 20 byte hexstring for creating H160''))"

definition sample_H256 :: "jsval \<Rightarrow> error + H256" where
  "sample_H256 v =
     (case v of
        JStr s \<Rightarrow> if length s = 64 \<and> list_all is_hex s then Inr (H256 s)
                  else Inl (Error ''Expected 32 byte hexstring for creating H256'')
      | _ \<Rightarrow> Inl (Error ''Expected 32 byte hexstring for creating H256''))"

definition sample_isNaN :: "jsval \<Rightarrow> bool" where
  "sample_isNaN v = (case v of JStr s \<Rightarrow> s = [] \<or> \<not> list_all is_digit s | JNum n \<Rightarrow> False | _ \<Rightarrow> True)"

definition sample_moment :: "jsval \<Rightarrow> int option" where
  "sample_moment v = (if v = JStr ''2019-01-01T00:00:00Z'' then Some 1546300800 else None)"

definition sample_env :: env where
  "sample_env =
     \<lparr>JSON_parse = JSON_parse_cursor,
      isNaN = sample_isNaN,
      H160_new = sample_H160,
      H256_new = sample_H256,
      moment = sample_moment,
      validate = (\<lambda>schemas req. Inr req),
      worker_sync = None,
      getUTXO = (\<lambda>ps. Inr []),
      getAggsUTXO = (\<lambda>ps. Inr []),
      getCountOfAggsUTXO = (\<lambda>ps. Inr (JNum 0)),
      getSnapshot = (\<lambda>h n k. Inr [(''data'', JArr [])]),
      getByHash = (\<lambda>h. Inr None),
      getByNumber = (\<lambda>n. Inr None),
      createPaginationResult = (\<lambda>first last rows kf n. JObj [(''data'', JArr rows)]),
      blocks = [\<lparr>hash = ''genesis'', number = 0, timestamp = 1546300801\<rparr>]\<rparr>"

definition empty_request :: request where
  "empty_request = \<lparr>query = (\<lambda>k. JUndefined), params = (\<lambda>k. JUndefined)\<rparr>"


definition snapshot_request :: request where
  "snapshot_request =
     empty_request\<lparr>query := (\<lambda>k. if k = ''assetType'' then JStr ''00000000000000000000000000000000000000ff''
                                 else if k = ''date'' then JStr ''2019-01-01T00:00:00Z''
                                 else JUndefined)\<rparr>"


definition sample_aggs_params :: "jsval \<Rightarrow> aggs_order \<Rightarrow> aggs_params" where
  "sample_aggs_params a ord =
     \<lparr>address = a, assetType = None, shardId = JUndefined, onlyConfirmed = JUndefined,
      confirmThreshold = JUndefined, itemsPerPage = JNum 16, firstEvaluatedKey = JUndefined,
      lastEvaluatedKey = JUndefined, order = ord\<rparr>"




definition confirmed_request :: request where
  "confirmed_request =
     empty_request\<lparr>query := (\<lambda>k. if k = ''onlyConfirmed'' then JBool True
                                 else if k = ''confirmThreshold'' then JStr ''10''
                                 else JUndefined)\<rparr>"



section \<open>Evaluation rules\<close>

lemma show_nat_small: "n < 10 \<Longrightarrow> show_nat n = [digit_char n]"
  by (simp add: show_nat.simps)

lemma show_nat_big: "10 \<le> n \<Longrightarrow> show_nat n = show_nat (n div 10) @ [digit_char (n mod 10)]"
  by (subst show_nat.simps) simp

lemmas route_defs = GET_utxo_def GET_aggs_utxo_def GET_aggs_utxo_count_def GET_snapshot_def
  GET_block_def

lemmas sample_defs = sample_env_def empty_request_def set_query_def sample_H160_def
  sample_H256_def sample_isNaN_def sample_moment_def is_hex_def

lemmas js_defs = parseInt_def parseInt_str_def is_js_space_def is_digit_def digits_val_def
  digit_val_def show_int_def show_nat_small show_nat_big digit_char_def js_and_def js_or_def
  js_plus_def


section \<open>What a route can do\<close>

lemma syncIfNeeded_cases:
  "syncIfNeeded env req = ([], [Next req])
   \<or> syncIfNeeded env req = ([Called WorkerSync], [Next req])
   \<or> syncIfNeeded env req = ([Called WorkerSync, Sent (Status SERVICE_UNAVAILABLE)], [])
   \<or> (\<exists>m. syncIfNeeded env req = ([Called WorkerSync], [NextErr (Error m), Next req]))"
  by (auto simp add: syncIfNeeded_def split: option.splits)

lemma parseEvaluatedKey_cases:
  "(\<exists>e. parseEvaluatedKey env req = ([], [NextErr e]))
   \<or> (\<exists>r. parseEvaluatedKey env req = ([], [Next r]))"
  by (auto simp add: parseEvaluatedKey_def split: sum.splits)

lemma validate_mw_cases:
  "(\<exists>e. validate_mw env ss req = ([], [NextErr e]))
   \<or> (\<exists>r. validate_mw env ss req = ([], [Next r]))"
  by (auto simp add: validate_mw_def split: sum.splits)

text \<open>The last handler of a route: its calls are the calls of the route from there on.\<close>

lemma run_last:
  assumes "Called c \<in> set (run [h] req)"
  shows "Called c \<in> set (fst (h req))"
proof -
  have "Called c \<notin> set (case k of Next r \<Rightarrow> run [] r | NextErr e \<Rightarrow> [Raised e])" for k
    by (cases k) auto
  with assms show ?thesis
    by (cases "h req") auto
qed

text \<open>
  In a route guarded by \<open>parseEvaluatedKey\<close>, the validator and \<open>syncIfNeeded\<close>,
  every call other than the sync is made by the handler, on the request that reaches it.
\<close>

lemma guarded_route_calls:
  assumes "Called c \<in> set (run [parseEvaluatedKey env, validate_mw env ss, syncIfNeeded env, h] r)"
    and "c \<noteq> WorkerSync"
  shows "\<exists>req. Called c \<in> set (fst (h req))"
proof -
  from parseEvaluatedKey_cases [of env r] show ?thesis
  proof (elim disjE exE)
    fix e assume "parseEvaluatedKey env r = ([], [NextErr e])"
    with assms show ?thesis by simp
  next
    fix r1 assume p: "parseEvaluatedKey env r = ([], [Next r1])"
    from validate_mw_cases [of env ss r1] show ?thesis
    proof (elim disjE exE)
      fix e assume "validate_mw env ss r1 = ([], [NextErr e])"
      with assms p show ?thesis by simp
    next
      fix r2 assume v: "validate_mw env ss r1 = ([], [Next r2])"
      have "Called c \<in> set (run [h] r2)"
        using syncIfNeeded_cases [of env r2] assms p v
        by (auto simp del: run.simps(2) simp add: run.simps(2) [of "parseEvaluatedKey env"]
              run.simps(2) [of "validate_mw env ss"] run.simps(2) [of "syncIfNeeded env"])
      then have "Called c \<in> set (fst (h r2))" by (rule run_last)
      then show ?thesis ..
    qed
  qed
qed

section \<open>The handlers' calls\<close>




lemma js_plus_num [simp]: "js_plus (JNum a) (JNum b) = JNum (a + b)"
  by (simp add: js_plus_def)

lemma utxo_handler_call:
  assumes "Called (GetUTXO ps) \<in> set (fst (utxo_handler env req))"
  shows "itemsPerPage ps = js_plus (itemsPerPage_of req) (JNum 1)
       \<and> onlyConfirmed ps = query req ''onlyConfirmed''
       \<and> confirmThreshold ps = optional_int req ''confirmThreshold''
       \<and> firstEvaluatedKey ps = query req ''firstEvaluatedKey''
       \<and> lastEvaluatedKey ps = query req ''lastEvaluatedKey''"
  using assms
  by (auto simp add: utxo_handler_def Let_def split: sum.splits)

lemma aggs_handler_call:
  assumes "Called (GetAggsUTXO ps) \<in> set (fst (aggs_utxo_handler env req))"
  shows "address ps = query req ''address''
       \<and> order ps = (if truthy (query req ''address'') then OrderAssetType else OrderAddress)
       \<and> itemsPerPage ps = js_plus (itemsPerPage_of req) (JNum 1)"
  using assms
  by (auto simp add: aggs_utxo_handler_def order_of_def Let_def split: sum.splits)



lemma getByTime_None: "(\<forall>b \<in> set bs. \<not> timestamp b \<le> t) \<Longrightarrow> getByTime bs t = None"
  by (simp add: getByTime_def filter_empty_conv)

section \<open>The sync pre-step\<close>




section \<open>Aggregate listing: order and limit\<close>

text \<open>
  C2. In the aggregate-UTXO listing the grouping order is computed from the address
  filter alone: every \<open>getAggsUTXO\<close> call of the handler carries the request's
  \<open>address\<close> and the order \<open>assetType\<close> when that address is supplied (present
  and not the empty string), \<open>address\<close> otherwise; and in every call the route
  makes, the order is that function of the address passed in the same call.
\<close>

theorem aggs_order_from_address:
  "(\<forall>ps. Called (GetAggsUTXO ps) \<in> set (fst (aggs_utxo_handler env req)) \<longrightarrow>
      address ps = query req ''address''
      \<and> order ps = (if truthy (query req ''address'') then OrderAssetType else OrderAddress))
   \<and> (\<forall>ps. Called (GetAggsUTXO ps) \<in> set (GET_aggs_utxo env r) \<longrightarrow>
      order ps = (if truthy (address ps) then OrderAssetType else OrderAddress))"
proof (intro conjI allI impI)
  fix ps assume "Called (GetAggsUTXO ps) \<in> set (fst (aggs_utxo_handler env req))"
  then show "address ps = query req ''address''"
    and "order ps = (if truthy (query req ''address'') then OrderAssetType else OrderAddress)"
    using aggs_handler_call by blast+
next
  fix ps assume "Called (GetAggsUTXO ps) \<in> set (GET_aggs_utxo env r)"
  then obtain req where "Called (GetAggsUTXO ps) \<in> set (fst (aggs_utxo_handler env req))"
    unfolding GET_aggs_utxo_def using guarded_route_calls by blast
  then show "order ps = (if truthy (address ps) then OrderAssetType else OrderAddress)"
    using aggs_handler_call by metis
qed

theorem aggs_order_witness:
  "Called (GetAggsUTXO (sample_aggs_params (JStr ''tcaqyqckq0zgdxgpck6tjdg4qmp52p2vx3qaexqnegylk'') OrderAssetType))
     \<in> set (GET_aggs_utxo sample_env
              (set_query empty_request ''address'' (JStr ''tcaqyqckq0zgdxgpck6tjdg4qmp52p2vx3qaexqnegylk'')))
   \<and> Called (GetAggsUTXO (sample_aggs_params JUndefined OrderAddress))
     \<in> set (GET_aggs_utxo sample_env empty_request)
   \<and> order (sample_aggs_params (JStr ''tcaqyqckq0zgdxgpck6tjdg4qmp52p2vx3qaexqnegylk'') OrderAssetType) = OrderAssetType
   \<and> order (sample_aggs_params JUndefined OrderAddress) = OrderAddress"
  using aggs_order_from_address
    [of sample_env empty_request
        "set_query empty_request ''address'' (JStr ''tcaqyqckq0zgdxgpck6tjdg4qmp52p2vx3qaexqnegylk'')"]
  by (simp add: route_defs parseEvaluatedKey_def parseKey_def validate_mw_def syncIfNeeded_def
        aggs_utxo_handler_def optional_H160_def optional_int_def itemsPerPage_of_def order_of_def
        sample_defs sample_aggs_params_def js_defs)



section \<open>Snapshot\<close>

text \<open>
  C4. A snapshot request with a well-formed asset type and a valid date, made when no
  block has a timestamp at or before that date, is answered with the JSON value
  \<open>null\<close>: the block lookup is the only call, no error is raised and
  \<open>getSnapshot\<close> is not called. The same holds for the whole route once the request
  has passed cursor parsing and validation.
\<close>

theorem snapshot_no_block:
  assumes "\<forall>b \<in> set (blocks env). \<not> timestamp b \<le> t"
    and "H160_new env (query req ''assetType'') = Inr h"
    and "moment env (query req ''date'') = Some t"
  shows "snapshot_handler env req = ([Called (GetByTime t), Sent (Json JNull)], [])
       \<and> (\<forall>r r1. parseEvaluatedKey env r = ([], [Next r1]) \<and>
              validate env [snapshotSchema, snapshotPaginationSchema] r1 = Inr req \<longrightarrow>
            GET_snapshot env r = [Called (GetByTime t), Sent (Json JNull)])"
  using assms getByTime_None [of "blocks env" t]
  by (simp add: snapshot_handler_def route_defs validate_mw_def)

theorem snapshot_no_block_witness:
  "map timestamp (blocks sample_env) = [1546300801]
   \<and> H160_new sample_env (query snapshot_request ''assetType'')
       = Inr (H160 ''00000000000000000000000000000000000000ff'')
   \<and> moment sample_env (query snapshot_request ''date'') = Some 1546300800
   \<and> GET_snapshot sample_env snapshot_request = [Called (GetByTime 1546300800), Sent (Json JNull)]"
  using snapshot_no_block
    [of sample_env 1546300800 snapshot_request "H160 ''00000000000000000000000000000000000000ff''"]
  by (simp add: sample_defs snapshot_request_def parseEvaluatedKey_def parseKey_def)

text \<open>
  C5. A snapshot request whose date is not a valid moment makes no call at all: no
  block is resolved and no storage is queried. With a well-formed asset type the
  handler hands \<open>InvalidDateParam\<close> to the error handlers, once, and the route that
  has let the request through ends with that error.
\<close>

theorem snapshot_invalid_date:
  assumes "moment env (query req ''date'') = None"
  shows "fst (snapshot_handler env req) = []
       \<and> (\<forall>h. H160_new env (query req ''assetType'') = Inr h \<longrightarrow>
            snapshot_handler env req = ([], [NextErr InvalidDateParam]))
       \<and> (\<forall>h r r1. H160_new env (query req ''assetType'') = Inr h \<and>
              parseEvaluatedKey env r = ([], [Next r1]) \<and>
              validate env [snapshotSchema, snapshotPaginationSchema] r1 = Inr req \<longrightarrow>
            GET_snapshot env r = [Raised InvalidDateParam])"
  using assms
  by (auto simp add: snapshot_handler_def route_defs validate_mw_def split: sum.splits)

theorem snapshot_invalid_date_witness:
  "moment sample_env (query (set_query snapshot_request ''date'' (JStr ''yesterday'')) ''date'') = None
   \<and> GET_snapshot sample_env (set_query snapshot_request ''date'' (JStr ''yesterday''))
       = [Raised InvalidDateParam]"
  using snapshot_invalid_date
    [of sample_env "set_query snapshot_request ''date'' (JStr ''yesterday'')"]
  by (simp add: sample_defs snapshot_request_def parseEvaluatedKey_def parseKey_def)

section \<open>Block lookup\<close>



section \<open>Page size\<close>




section \<open>Confirmation filter\<close>

text \<open>
  C7. With \<open>onlyConfirmed\<close> true the eligible ceiling is \<open>H - confirmThreshold\<close>
  and an output is kept exactly when its block number of creation is at most that
  ceiling; with \<open>onlyConfirmed\<close> false there is no ceiling and every output is kept.
  At head height 100 and threshold 10 the ceiling is 90: an output created at block 91
  is excluded, one created at block 90 is included. The \<open>/utxo\<close> handler forwards
  \<open>onlyConfirmed\<close> unchanged and \<open>confirmThreshold\<close> read by \<open>parseInt\<close>.
\<close>

theorem confirmation_filter:
  "(r \<in> set (confirmedUTXO True t H rows) \<longleftrightarrow> r \<in> set rows \<and> createdBlockNumber r \<le> H - t)
   \<and> confirmedUTXO False t H rows = rows
   \<and> confirmationCeiling True t H = Some (H - t)
   \<and> confirmationCeiling False t H = None
   \<and> \<not> eligible (confirmationCeiling True 10 100) \<lparr>createdBlockNumber = 91, actionId = a, outputIndex = i\<rparr>
   \<and> eligible (confirmationCeiling True 10 100) \<lparr>createdBlockNumber = 90, actionId = a, outputIndex = i\<rparr>
   \<and> (\<forall>ps. Called (GetUTXO ps) \<in> set (fst (utxo_handler env req)) \<longrightarrow>
        onlyConfirmed ps = query req ''onlyConfirmed''
        \<and> confirmThreshold ps =
            js_and (query req ''confirmThreshold'') (parseInt (query req ''confirmThreshold'')))"
  using utxo_handler_call [of _ env req]
  by (auto simp add: confirmedUTXO_def confirmationCeiling_def eligible_def optional_int_def)

theorem confirmation_filter_witness:
  "Called (GetUTXO \<lparr>address = JUndefined, assetType = None, shardId = JUndefined,
             onlyConfirmed = JBool True, confirmThreshold = JNum 10, itemsPerPage = JNum 16,
             firstEvaluatedKey = JUndefined, lastEvaluatedKey = JUndefined\<rparr>)
     \<in> set (fst (utxo_handler sample_env confirmed_request))
   \<and> confirmedUTXO True 10 100
        [\<lparr>createdBlockNumber = 91, actionId = 1, outputIndex = 0\<rparr>,
         \<lparr>createdBlockNumber = 90, actionId = 2, outputIndex = 0\<rparr>]
       = [\<lparr>createdBlockNumber = 90, actionId = 2, outputIndex = 0\<rparr>]"
  using confirmation_filter [of _ 10 100 _ _ _ sample_env confirmed_request]
  by (simp add: utxo_handler_def optional_H160_def optional_int_def itemsPerPage_of_def
        sample_defs confirmed_request_def js_defs confirmedUTXO_def confirmationCeiling_def
        eligible_def)

section \<open>Conflicting cursors\<close>









section \<open>Cursor codec\<close>

subsection \<open>Decimal numerals are read back\<close>












subsection \<open>Numbers and strings are read back\<close>












subsection \<open>Arrays are read back\<close>











lemma set_query_twice [simp]: "set_query (set_query req k x) k y = set_query req k y"
  by (simp add: set_query_def)

lemma set_query_same [simp]: "query (set_query req k x) k = x"
  by (simp add: set_query_def)

lemma set_query_other [simp]: "k \<noteq> j \<Longrightarrow> query (set_query req k x) j = query req j"
  by (simp add: set_query_def)







end
